theory Spec2Isabelle
  imports Complex_Main "HOL-Library.Log_Nat"
begin

section \<open>Onedb: schema and synthetic data generators of a construction-materials shop\<close>

text \<open>
  The repository has two scripts, \<^verbatim>\<open>models.py\<close> and \<^verbatim>\<open>Dbcarga.py\<close>. Both are straight-line
  code over three libraries: Python's \<^verbatim>\<open>random\<close>, Faker and SQLAlchemy. The embedding makes
  the effects of these libraries explicit:
  \<^item> every random outcome is an input: a call \<^verbatim>\<open>random.choice\<close>, \<^verbatim>\<open>random.randint\<close>, ... takes the
    raw natural number that the generator produced for that call, and a function that makes
    several calls takes an \<open>entropy\<close>, the raw numbers of its calls in source order;
  \<^item> a Python float is modelled by the rational number it denotes; \<open>+\<close>, \<open>-\<close> and \<open>*\<close> are
    exact, and \<^verbatim>\<open>round(x, 2)\<close> returns, as in CPython, the binary64 number nearest to the
    decimal it rounds to;
  \<^item> dates are the day ordinals of \<^verbatim>\<open>datetime.date\<close> (\<open>int\<close>);
  \<^item> exceptions are values of type \<open>error\<close>, returned as \<open>Inl\<close>;
  \<^item> the SQLAlchemy session is a record that is passed along and returned updated.
\<close>

subsection \<open>Errors\<close>

datatype error =
    IndexError        \<comment> \<open>\<^verbatim>\<open>random.choice\<close> on an empty sequence\<close>
  | ValueError        \<comment> \<open>\<^verbatim>\<open>random.choices\<close> with bad weights, empty date range\<close>
  | OperationalError  \<comment> \<open>CREATE TABLE of a table that exists\<close>

subsection \<open>The primitives of Python's \<^verbatim>\<open>random\<close>\<close>

type_synonym entropy = "nat \<Rightarrow> nat"

type_synonym pyfloat = rat

definition random_random :: "nat \<Rightarrow> pyfloat" where
  \<comment> \<open>\<^verbatim>\<open>random.random()\<close>: a 53-bit integer divided by \<open>2^53\<close>, in \<open>[0, 1)\<close>.\<close>
  "random_random raw = of_nat (raw mod 2 ^ 53) / 2 ^ 53"

definition randbelow :: "nat \<Rightarrow> nat \<Rightarrow> nat" where
  \<comment> \<open>\<^verbatim>\<open>Random._randbelow(n)\<close>: an integer in \<open>[0, n)\<close>.\<close>
  "randbelow n raw = raw mod n"

definition random_randint :: "int \<Rightarrow> int \<Rightarrow> nat \<Rightarrow> int" where
  \<comment> \<open>\<^verbatim>\<open>random.randint(a, b)\<close>: \<^verbatim>\<open>a + _randbelow(b - a + 1)\<close>.\<close>
  "random_randint a b raw = a + int (randbelow (nat (b - a + 1)) raw)"

definition random_uniform :: "pyfloat \<Rightarrow> pyfloat \<Rightarrow> nat \<Rightarrow> pyfloat" where
  \<comment> \<open>\<^verbatim>\<open>random.uniform(a, b)\<close>: \<^verbatim>\<open>a + (b - a) * random()\<close>.\<close>
  "random_uniform a b raw = a + (b - a) * random_random raw"

definition random_choice :: "'a list \<Rightarrow> nat \<Rightarrow> error + 'a" where
  \<comment> \<open>\<^verbatim>\<open>random.choice(seq)\<close>: IndexError on an empty sequence, else \<^verbatim>\<open>seq[_randbelow(len(seq))]\<close>.\<close>
  "random_choice seq raw =
     (if seq = [] then Inl IndexError else Inr (seq ! randbelow (length seq) raw))"

fun accumulate :: "pyfloat \<Rightarrow> pyfloat list \<Rightarrow> pyfloat list" where
  \<comment> \<open>\<^verbatim>\<open>itertools.accumulate\<close>, with the running total as first argument.\<close>
  "accumulate acc [] = []"
| "accumulate acc (w # ws) = (acc + w) # accumulate (acc + w) ws"

function bisect :: "pyfloat list \<Rightarrow> pyfloat \<Rightarrow> nat \<Rightarrow> nat \<Rightarrow> nat" where
  \<comment> \<open>\<^verbatim>\<open>bisect.bisect_right(a, x, lo, hi)\<close>.\<close>
  "bisect a x lo hi =
     (if lo < hi then
        (let mid = (lo + hi) div 2
         in if x < a ! mid then bisect a x lo mid else bisect a x (mid + 1) hi)
      else lo)"
  by pat_completeness auto
termination
  by (relation "measure (\<lambda>(a, x, lo, hi). hi - lo)") auto

declare bisect.simps [simp del]

definition random_choices :: "'a list \<Rightarrow> pyfloat list \<Rightarrow> nat \<Rightarrow> error + 'a" where
  \<comment> \<open>\<^verbatim>\<open>random.choices(population, weights)[0]\<close>: one weighted draw.\<close>
  "random_choices population weights raw =
     (let n = length population;
          cum_weights = accumulate 0 weights
      in if length cum_weights \<noteq> n then Inl ValueError
         else if n = 0 then Inl IndexError
         else let total = last cum_weights
              in if total \<le> 0 then Inl ValueError
                 else Inr (population ! bisect cum_weights (random_random raw * total) 0 (n - 1)))"

definition round_half_even :: "rat \<Rightarrow> int" where
  \<comment> \<open>The nearest integer, a tie going to the even one.\<close>
  "round_half_even q =
     (let f = \<lfloor>q\<rfloor>; d = q - of_int f
      in if d < 1 / 2 then f else if 1 / 2 < d then f + 1
         else if even f then f else f + 1)"

definition float_exponent :: "rat \<Rightarrow> int" where
  \<comment> \<open>For \<open>0 < x\<close>, the \<open>e\<close> with \<open>2^e \<le> x < 2^(e+1)\<close>.\<close>
  "float_exponent x = (if 1 \<le> x then bitlen \<lfloor>x\<rfloor> - 1 else - bitlen (\<lceil>1 / x\<rceil> - 1))"

definition float_round :: "rat \<Rightarrow> pyfloat" where
  \<comment> \<open>The binary64 number nearest to \<open>x\<close>, a tie going to the even significand: a multiple of
      \<open>2^(e-52)\<close> where \<open>e\<close> is the exponent of \<open>x\<close>. The exponent range is not limited; the
      numbers of the scripts are far from overflow and underflow.\<close>
  "float_round x =
     (if x = 0 then 0
      else let u = 2 powi (float_exponent \<bar>x\<bar> - 52)
           in of_int (round_half_even (x / u)) * u)"

definition round2 :: "pyfloat \<Rightarrow> pyfloat" where
  \<comment> \<open>\<^verbatim>\<open>round(x, 2)\<close>: \<open>x\<close> is rounded to a whole number of hundredths, a tie going to the even
      one, and the result is the float nearest to that decimal.\<close>
  "round2 x = float_round (of_int (round_half_even (x * 100)) / 100)"

subsection \<open>Faker\<close>

text \<open>
  The text providers of Faker are parameters: each maps the raw random number of the call
  to the string it returns. \<open>today\<close> is the day the script runs.

  Faker turns the offset \<^verbatim>\<open>"-nd"\<close> into \<^verbatim>\<open>timedelta(days=-n)\<close> and the offset \<^verbatim>\<open>"-ny"\<close> into
  \<^verbatim>\<open>timedelta(days=-365.24 * n)\<close>, and adds it to today's date. Adding a \<^verbatim>\<open>timedelta\<close> to a
  \<^verbatim>\<open>date\<close> adds its whole days, and a \<^verbatim>\<open>timedelta\<close> of \<open>-365.24\<close> days is \<open>-366\<close> days plus a
  positive rest: the day count is rounded down. So \<^verbatim>\<open>"-1y"\<close> is the date 366 days before today
  and \<^verbatim>\<open>"-5y"\<close> the date 1827 days before today.
\<close>

record faker =
  today :: int
  fake_name :: "nat \<Rightarrow> string"
  fake_cpf :: "nat \<Rightarrow> string"
  fake_address :: "nat \<Rightarrow> string"
  fake_phone_number :: "nat \<Rightarrow> string"
  fake_email :: "nat \<Rightarrow> string"
  fake_sentence :: "nat \<Rightarrow> nat \<Rightarrow> string"

datatype date_spec = Today | DaysAgo nat | YearsAgo nat

fun parse_date :: "faker \<Rightarrow> date_spec \<Rightarrow> int" where
  "parse_date fake Today = today fake"
| "parse_date fake (DaysAgo n) = today fake - int n"
| "parse_date fake (YearsAgo n) = today fake + \<lfloor>- (36524 / 100) * (of_nat n :: rat)\<rfloor>"

definition date_between :: "faker \<Rightarrow> date_spec \<Rightarrow> date_spec \<Rightarrow> nat \<Rightarrow> error + int" where
  \<comment> \<open>\<^verbatim>\<open>fake.date_between(start_date, end_date)\<close>: a date from start to end, both included.\<close>
  "date_between fake start_date end_date raw =
     (let s = parse_date fake start_date; e = parse_date fake end_date
      in if e < s then Inl ValueError
         else Inr (random_randint s e raw))"

subsection \<open>Calendar dates\<close>

text \<open>
  The day ordinal of a calendar date, as \<^verbatim>\<open>datetime.date(year, month, day).toordinal()\<close>
  computes it: day 1 is the first of January of the year 1.
\<close>

definition is_leap :: "int \<Rightarrow> bool" where
  "is_leap year \<longleftrightarrow> year mod 4 = 0 \<and> (year mod 100 \<noteq> 0 \<or> year mod 400 = 0)"

definition days_before_year :: "int \<Rightarrow> int" where
  "days_before_year year =
     (let y = year - 1 in y * 365 + y div 4 - y div 100 + y div 400)"

definition days_in_month :: "int list" where
  "days_in_month = [31, 28, 31, 30, 31, 30, 31, 31, 30, 31, 30, 31]"

definition days_before_month :: "int \<Rightarrow> nat \<Rightarrow> int" where
  "days_before_month year month =
     sum_list (take (month - 1) days_in_month) + (if 2 < month \<and> is_leap year then 1 else 0)"

definition ymd2ord :: "int \<Rightarrow> nat \<Rightarrow> nat \<Rightarrow> int" where
  "ymd2ord year month day = days_before_year year + days_before_month year month + int day"

subsection \<open>The six entities\<close>

text \<open>
  The primary key of a row is assigned by the storage when the row is inserted, so an entity
  record holds the other columns, and a stored row is a pair of its key and the record.
\<close>

record Cliente =
  nome :: string
  cpf_cnpj :: string
  endereco :: string
  telefone :: string
  email :: string
  segmento :: string
  canal_compra :: string

record Produto =
  descricao :: string
  categoria :: string
  preco_unitario :: pyfloat
  peso_sazonal :: pyfloat
  unidade_medida :: string

record Caixa =
  nome :: string
  funcao :: string
  data_admissao :: int

record FormaPagamento =
  descricao :: string
  prazo_pagamento :: int
  desconto :: pyfloat

record StatusEntrega =
  descricao :: string

record Venda =
  id_cliente :: int
  id_produto :: int
  data_venda :: int
  valor_venda :: pyfloat
  quantidade :: int
  id_forma_pagamento :: int
  id_status_entrega :: int
  data_entrega :: "int option"
  id_caixa :: int

subsection \<open>The fixed tables of the generators\<close>

text \<open>Letters beyond ASCII are written by their code point.\<close>

definition categorias_produtos :: "(string \<times> pyfloat) list" where
  "categorias_produtos =
     [(''Cimento e Argamassa'', 2 / 10),
      (''Tijolos e Blocos'', 15 / 100),
      (''Telhas e Coberturas'', 1 / 10),
      (''Madeiras'', 1 / 10),
      (''Hidr'' @ [CHR 0xE1] @ ''ulica'', 15 / 100),
      (''El'' @ [CHR 0xE9] @ ''trica'', 1 / 10),
      (''Ferramentas'', 1 / 10),
      (''Tintas'', 1 / 10)]"

definition formas_pagamento :: "(string \<times> pyfloat) list" where
  "formas_pagamento =
     [(''Dinheiro'', 1 / 10),
      (''Cart'' @ [CHR 0xE3] @ ''o de Cr'' @ [CHR 0xE9] @ ''dito'', 6 / 10),
      (''Cart'' @ [CHR 0xE3] @ ''o de D'' @ [CHR 0xE9] @ ''bito'', 2 / 10),
      (''Boleto'', 1 / 10)]"


subsection \<open>Generators of the reference entities\<close>


definition gerar_produto :: "faker \<Rightarrow> entropy \<Rightarrow> error + Produto" where
  "gerar_produto fake rnd =
     (case random_choices (map fst categorias_produtos) (map snd categorias_produtos) (rnd 0) of
        Inl e \<Rightarrow> Inl e
      | Inr cat \<Rightarrow>
     (case random_choice [''UN'', ''KG'', ''M'', ''M2'', ''M3''] (rnd 4) of
        Inl e \<Rightarrow> Inl e
      | Inr un \<Rightarrow>
          Inr \<lparr>Produto.descricao = fake_sentence fake 4 (rnd 1),
               categoria = cat,
               preco_unitario = round2 (random_uniform 10 500 (rnd 2)),
               peso_sazonal = random_uniform (8 / 10) (12 / 10) (rnd 3),
               unidade_medida = un\<rparr>))"


definition gerar_forma_pagamento :: "entropy \<Rightarrow> error + FormaPagamento" where
  "gerar_forma_pagamento rnd =
     (case random_choices (map fst formas_pagamento) (map snd formas_pagamento) (rnd 0) of
        Inl e \<Rightarrow> Inl e
      | Inr d \<Rightarrow>
          Inr \<lparr>FormaPagamento.descricao = d,
               prazo_pagamento = (if d = ''Boleto'' then random_randint 0 30 (rnd 1) else 0),
               desconto = (if d = ''Dinheiro'' then random_uniform 0 (1 / 10) (rnd 2) else 0)\<rparr>)"


subsection \<open>The store and the SQLAlchemy session\<close>

text \<open>
  The database holds the catalogue of its tables (\<open>schema\<close>) and the rows of the six tables in
  insertion order. A session works on its own view of the database (\<open>store\<close>); \<open>durable\<close> is
  what has been committed. \<open>pending\<close> holds the objects given to \<^verbatim>\<open>session.add\<close> that were not
  flushed yet, and \<open>selects\<close> logs the full-table reads in order.
\<close>

type_synonym 'a table = "(int \<times> 'a) list"

record db =
  schema :: "string list"
  tb_clientes :: "Cliente table"
  tb_produtos :: "Produto table"
  tb_caixas :: "Caixa table"
  tb_formas_pagamento :: "FormaPagamento table"
  tb_status_entrega :: "StatusEntrega table"
  tb_vendas :: "Venda table"

datatype obj =
    OCliente Cliente
  | OProduto Produto
  | OCaixa Caixa
  | OFormaPagamento FormaPagamento
  | OStatusEntrega StatusEntrega
  | OVenda Venda

record session =
  store :: db
  durable :: db
  pending :: "obj list"
  selects :: "string list"
  commits :: nat
  closed :: bool

definition next_id :: "'a table \<Rightarrow> int" where
  \<comment> \<open>An integer primary key: one more than the largest key of the table.\<close>
  "next_id rows = fold max (map fst rows) 0 + 1"

definition insert_row :: "'a \<Rightarrow> 'a table \<Rightarrow> 'a table" where
  "insert_row r rows = rows @ [(next_id rows, r)]"

fun insert_obj :: "obj \<Rightarrow> db \<Rightarrow> db" where
  "insert_obj (OCliente c) d = d\<lparr>tb_clientes := insert_row c (tb_clientes d)\<rparr>"
| "insert_obj (OProduto p) d = d\<lparr>tb_produtos := insert_row p (tb_produtos d)\<rparr>"
| "insert_obj (OCaixa c) d = d\<lparr>tb_caixas := insert_row c (tb_caixas d)\<rparr>"
| "insert_obj (OFormaPagamento f) d =
     d\<lparr>tb_formas_pagamento := insert_row f (tb_formas_pagamento d)\<rparr>"
| "insert_obj (OStatusEntrega st) d =
     d\<lparr>tb_status_entrega := insert_row st (tb_status_entrega d)\<rparr>"
| "insert_obj (OVenda v) d = d\<lparr>tb_vendas := insert_row v (tb_vendas d)\<rparr>"

definition open_session :: "db \<Rightarrow> session" where
  \<comment> \<open>\<^verbatim>\<open>Session()\<close> on an engine bound to the database.\<close>
  "open_session d =
     \<lparr>store = d, durable = d, pending = [], selects = [], commits = 0, closed = False\<rparr>"


definition flush :: "session \<Rightarrow> session" where
  \<comment> \<open>INSERT of the pending objects, in the order they were added.\<close>
  "flush s = s\<lparr>store := fold insert_obj (pending s) (store s), pending := []\<rparr>"

definition query_all :: "string \<Rightarrow> session \<Rightarrow> session" where
  \<comment> \<open>\<^verbatim>\<open>session.query(C).all()\<close>: the session flushes first (autoflush), then reads the whole
      table; the rows are then read off the store.\<close>
  "query_all tablename s = (let s' = flush s in s'\<lparr>selects := selects s' @ [tablename]\<rparr>)"


definition close :: "session \<Rightarrow> session" where
  \<comment> \<open>\<^verbatim>\<open>session.close()\<close>: what was not committed is dropped.\<close>
  "close s = s\<lparr>store := durable s, pending := [], closed := True\<rparr>"

subsection \<open>Schema creation\<close>

definition metadata_tables :: "string list" where
  \<comment> \<open>The \<^verbatim>\<open>__tablename__\<close> of the six classes; \<^verbatim>\<open>vendas\<close> refers to the other five.\<close>
  "metadata_tables =
     [''clientes'', ''produtos'', ''caixas'', ''formas_pagamento'', ''status_entrega'', ''vendas'']"

definition create_table :: "string \<Rightarrow> db \<Rightarrow> error + db" where
  \<comment> \<open>CREATE TABLE: an error when the table exists.\<close>
  "create_table t d =
     (if t \<in> set (schema d) then Inl OperationalError else Inr (d\<lparr>schema := schema d @ [t]\<rparr>))"

fun create_tables :: "string list \<Rightarrow> db \<Rightarrow> error + db" where
  \<comment> \<open>\<^verbatim>\<open>checkfirst=True\<close>: a table is created only when the catalogue does not have it.\<close>
  "create_tables [] d = Inr d"
| "create_tables (t # ts) d =
     (if t \<in> set (schema d) then create_tables ts d
      else case create_table t d of Inl e \<Rightarrow> Inl e | Inr d' \<Rightarrow> create_tables ts d')"

definition create_all :: "db \<Rightarrow> error + db" where
  \<comment> \<open>\<^verbatim>\<open>Base.metadata.create_all(engine)\<close>.\<close>
  "create_all d = create_tables metadata_tables d"

subsection \<open>The sale generator\<close>

text \<open>
  \<^verbatim>\<open>gerar_venda\<close> has the same text in both scripts. Its random calls, in source order: the five
  \<^verbatim>\<open>random.choice\<close> (0 to 4), \<^verbatim>\<open>date_between\<close> for \<open>data_venda\<close> (5), \<^verbatim>\<open>randint\<close> for
  \<open>valor_venda\<close> (6), \<^verbatim>\<open>randint\<close> for \<open>quantidade\<close> (7), \<^verbatim>\<open>date_between\<close> for \<open>data_entrega\<close> (8).
\<close>

definition gerar_venda :: "faker \<Rightarrow> entropy \<Rightarrow> session \<Rightarrow> error + (Venda \<times> session)" where
  "gerar_venda fake rnd s0 =
     (let s1 = query_all ''clientes'' s0 in
     (case random_choice (tb_clientes (store s1)) (rnd 0) of Inl e \<Rightarrow> Inl e | Inr cliente \<Rightarrow>
     (let s2 = query_all ''produtos'' s1 in
     (case random_choice (tb_produtos (store s2)) (rnd 1) of Inl e \<Rightarrow> Inl e | Inr produto \<Rightarrow>
     (let s3 = query_all ''formas_pagamento'' s2 in
     (case random_choice (tb_formas_pagamento (store s3)) (rnd 2) of
        Inl e \<Rightarrow> Inl e | Inr forma_pagamento \<Rightarrow>
     (let s4 = query_all ''status_entrega'' s3 in
     (case random_choice (tb_status_entrega (store s4)) (rnd 3) of
        Inl e \<Rightarrow> Inl e | Inr status \<Rightarrow>
     (let s5 = query_all ''caixas'' s4 in
     (case random_choice (tb_caixas (store s5)) (rnd 4) of Inl e \<Rightarrow> Inl e | Inr caixa \<Rightarrow>
     (case date_between fake (YearsAgo 1) Today (rnd 5) of Inl e \<Rightarrow> Inl e | Inr dv \<Rightarrow>
     (case (if StatusEntrega.descricao (snd status) = ''Entregue''
            then (case date_between fake (DaysAgo 30) Today (rnd 8) of
                    Inl e \<Rightarrow> Inl e | Inr d \<Rightarrow> Inr (Some d))
            else Inr None) of
        Inl e \<Rightarrow> Inl e
      | Inr de \<Rightarrow>
          Inr (\<lparr>id_cliente = fst cliente,
                id_produto = fst produto,
                data_venda = dv,
                valor_venda = preco_unitario (snd produto) * of_int (random_randint 1 10 (rnd 6)),
                quantidade = random_randint 1 10 (rnd 7),
                id_forma_pagamento = fst forma_pagamento,
                id_status_entrega = fst status,
                data_entrega = de,
                id_caixa = fst caixa\<rparr>, s5)))))))))))))"

subsection \<open>The seeding scripts\<close>










subsection \<open>Counting rows\<close>

fun tablename :: "obj \<Rightarrow> string" where
  "tablename (OCliente _) = ''clientes''"
| "tablename (OProduto _) = ''produtos''"
| "tablename (OCaixa _) = ''caixas''"
| "tablename (OFormaPagamento _) = ''formas_pagamento''"
| "tablename (OStatusEntrega _) = ''status_entrega''"
| "tablename (OVenda _) = ''vendas''"


subsection \<open>A small store for concrete runs\<close>

definition example_fake :: faker where
  "example_fake =
     \<lparr>today = 739000,
      fake_name = (\<lambda>_. ''Ana''), fake_cpf = (\<lambda>_. ''000.000.000-00''),
      fake_address = (\<lambda>_. ''Rua A''), fake_phone_number = (\<lambda>_. ''0000-0000''),
      fake_email = (\<lambda>_. ''ana@example.org''), fake_sentence = (\<lambda>_ _. ''Saco de cimento.'')\<rparr>"

definition example_db :: db where
  \<comment> \<open>One row in each reference table; the product costs 10.00, the status is Entregue.\<close>
  "example_db =
     \<lparr>schema = metadata_tables,
      tb_clientes = [(1, \<lparr>Cliente.nome = ''Ana'', cpf_cnpj = ''000.000.000-00'',
         endereco = ''Rua A'', telefone = ''0000-0000'', email = ''ana@example.org'',
         segmento = ''Residencial'', canal_compra = ''Online''\<rparr>)],
      tb_produtos = [(1, \<lparr>Produto.descricao = ''Saco de cimento.'',
         categoria = ''Cimento e Argamassa'', preco_unitario = 10, peso_sazonal = 1,
         unidade_medida = ''UN''\<rparr>)],
      tb_caixas = [(1, \<lparr>Caixa.nome = ''Rui'', funcao = ''Caixa'', data_admissao = 738000\<rparr>)],
      tb_formas_pagamento = [(1, \<lparr>FormaPagamento.descricao = ''Dinheiro'',
         prazo_pagamento = 0, desconto = 0\<rparr>)],
      tb_status_entrega = [(1, \<lparr>StatusEntrega.descricao = ''Entregue''\<rparr>)],
      tb_vendas = []\<rparr>"

definition example_rnd :: entropy where
  \<comment> \<open>The \<^verbatim>\<open>randint\<close> of \<open>valor_venda\<close> gives 2, the one of \<open>quantidade\<close> gives 3.\<close>
  "example_rnd = (\<lambda>i. if i = 6 then 1 else if i = 7 then 2 else 0)"

definition example_venda :: Venda where
  \<comment> \<open>The sale that \<^verbatim>\<open>gerar_venda\<close> returns on \<open>example_db\<close> with \<open>example_rnd\<close>.\<close>
  "example_venda =
     \<lparr>id_cliente = 1, id_produto = 1, data_venda = 738634, valor_venda = 20, quantidade = 3,
      id_forma_pagamento = 1, id_status_entrega = 1, data_entrega = Some 738970, id_caixa = 1\<rparr>"

definition example_after :: session where
  \<comment> \<open>The session after that call: five reads, nothing else changed.\<close>
  "example_after =
     (open_session example_db)
       \<lparr>selects := [''clientes'', ''produtos'', ''formas_pagamento'', ''status_entrega'', ''caixas'']\<rparr>"

definition example_fake_2026 :: faker where
  \<comment> \<open>The same Faker on the 4th of November 2026.\<close>
  "example_fake_2026 = example_fake\<lparr>today := ymd2ord 2026 11 4\<rparr>"

definition example_db_rows :: db where
  \<comment> \<open>A store with two or three rows in each reference table; the keys are not the positions.\<close>
  "example_db_rows =
     example_db
       \<lparr>tb_clientes := tb_clientes example_db @
          [(2, \<lparr>Cliente.nome = ''Bia'', cpf_cnpj = ''111.111.111-11'',
             endereco = ''Rua B'', telefone = ''1111-1111'', email = ''bia@example.org'',
             segmento = ''Comercial'', canal_compra = ''Online''\<rparr>),
           (5, \<lparr>Cliente.nome = ''Caio'', cpf_cnpj = ''222.222.222-22'',
             endereco = ''Rua C'', telefone = ''2222-2222'', email = ''caio@example.org'',
             segmento = ''Industrial'', canal_compra = ''Online''\<rparr>)],
        tb_produtos := tb_produtos example_db @
          [(4, \<lparr>Produto.descricao = ''Lata de tinta.'', categoria = ''Tintas'',
             preco_unitario = 25 / 2, peso_sazonal = 1, unidade_medida = ''UN''\<rparr>)],
        tb_caixas := tb_caixas example_db @
          [(3, \<lparr>Caixa.nome = ''Lia'', funcao = ''Gerente'', data_admissao = 737000\<rparr>)],
        tb_formas_pagamento := tb_formas_pagamento example_db @
          [(6, \<lparr>FormaPagamento.descricao = ''Boleto'', prazo_pagamento = 7, desconto = 0\<rparr>)],
        tb_status_entrega := tb_status_entrega example_db @
          [(2, \<lparr>StatusEntrega.descricao = ''Enviado''\<rparr>),
           (7, \<lparr>StatusEntrega.descricao = ''Em processamento''\<rparr>)]\<rparr>"

definition example_rnd_rows :: entropy where
  \<comment> \<open>Raw numbers that select the rows at the positions 2, 1, 1, 1 and 1.\<close>
  "example_rnd_rows =
     (\<lambda>i. if i = 0 then 5 else if i = 1 then 3 else if i = 2 then 1 else if i = 3 then 4
          else if i = 4 then 7 else if i = 5 then 100 else 3)"

definition example_venda_rows :: Venda where
  \<comment> \<open>The sale that \<^verbatim>\<open>gerar_venda\<close> returns on \<open>example_db_rows\<close> with \<open>example_rnd_rows\<close>.\<close>
  "example_venda_rows =
     \<lparr>id_cliente = 5, id_produto = 4, data_venda = 738734, valor_venda = 50, quantidade = 4,
      id_forma_pagamento = 6, id_status_entrega = 2, data_entrega = None, id_caixa = 3\<rparr>"

definition example_after_rows :: session where
  "example_after_rows =
     (open_session example_db_rows)
       \<lparr>selects := [''clientes'', ''produtos'', ''formas_pagamento'', ''status_entrega'', ''caixas'']\<rparr>"

section \<open>Properties\<close>

subsection \<open>The random primitives stay in range\<close>

lemma random_random_bounds: "0 \<le> random_random raw \<and> random_random raw < 1"
proof -
  have "raw mod 2 ^ 53 < (2::nat) ^ 53" by simp
  then have "(of_nat (raw mod 2 ^ 53) :: rat) < of_nat (2 ^ 53)"
    unfolding of_nat_less_iff .
  then show ?thesis by (simp add: random_random_def)
qed

lemma random_uniform_bounds:
  assumes "a \<le> b"
  shows "a \<le> random_uniform a b raw \<and> random_uniform a b raw \<le> b"
proof -
  have r: "0 \<le> random_random raw" "random_random raw \<le> 1"
    using random_random_bounds [of raw] by auto
  have "0 \<le> (b - a) * random_random raw"
    using assms r by simp
  moreover have "(b - a) * random_random raw \<le> (b - a) * 1"
    using assms r by (intro mult_left_mono) auto
  ultimately show ?thesis by (simp add: random_uniform_def)
qed

lemma random_randint_bounds:
  assumes "a \<le> b"
  shows "a \<le> random_randint a b raw \<and> random_randint a b raw \<le> b"
proof -
  have "0 < nat (b - a + 1)" using assms by simp
  then have "raw mod nat (b - a + 1) < nat (b - a + 1)" by simp
  then have "int (raw mod nat (b - a + 1)) < int (nat (b - a + 1))"
    unfolding of_nat_less_iff .
  then have "int (raw mod nat (b - a + 1)) < b - a + 1" using assms by simp
  then show ?thesis by (simp add: random_randint_def randbelow_def)
qed

lemma random_choice_member:
  "seq \<noteq> [] \<Longrightarrow> \<exists>x \<in> set seq. random_choice seq raw = Inr x"
  by (simp add: random_choice_def randbelow_def)

lemma length_accumulate: "length (accumulate acc ws) = length ws"
  by (induction ws arbitrary: acc) auto

lemma bisect_done: "\<not> lo < hi \<Longrightarrow> bisect a x lo hi = lo"
  by (subst bisect.simps) simp

lemma bisect_left: "lo < hi \<Longrightarrow> x < a ! ((lo + hi) div 2) \<Longrightarrow>
    bisect a x lo hi = bisect a x lo ((lo + hi) div 2)"
  by (subst bisect.simps) (simp add: Let_def)

lemma bisect_right: "lo < hi \<Longrightarrow> \<not> x < a ! ((lo + hi) div 2) \<Longrightarrow>
    bisect a x lo hi = bisect a x ((lo + hi) div 2 + 1) hi"
  by (subst bisect.simps) (simp add: Let_def)

lemma bisect_bounds: "lo \<le> hi \<Longrightarrow> lo \<le> bisect a x lo hi \<and> bisect a x lo hi \<le> hi"
proof (induction a x lo hi rule: bisect.induct)
  case (1 a x lo hi)
  show ?case
  proof (cases "lo < hi")
    case False
    then show ?thesis using "1.prems" by (simp add: bisect_done)
  next
    case True
    let ?mid = "(lo + hi) div 2"
    have m: "lo \<le> ?mid" "?mid < hi" using True by auto
    show ?thesis
    proof (cases "x < a ! ?mid")
      case True
      with \<open>lo < hi\<close> "1.IH"(1) [of ?mid] m show ?thesis
        by (simp add: bisect_left)
    next
      case False
      with \<open>lo < hi\<close> "1.IH"(2) [of ?mid] m show ?thesis
        by (simp add: bisect_right)
    qed
  qed
qed

lemma random_choices_member:
  assumes "length weights = length population" "population \<noteq> []"
    and "0 < last (accumulate 0 weights)"
  shows "\<exists>x \<in> set population. random_choices population weights raw = Inr x"
proof -
  let ?i = "bisect (accumulate 0 weights) (random_random raw * last (accumulate 0 weights)) 0
              (length population - 1)"
  have "?i \<le> length population - 1" using bisect_bounds [of 0 "length population - 1"] by simp
  then have "?i < length population" using assms(2) by (cases population) auto
  then have "population ! ?i \<in> set population" by simp
  moreover have "random_choices population weights raw = Inr (population ! ?i)"
    using assms by (simp add: random_choices_def Let_def length_accumulate)
  ultimately show ?thesis by blast
qed

lemma round_half_even_of_int: "round_half_even (of_int k) = k"
  by (simp add: round_half_even_def)

lemma round_half_even_ge:
  assumes "of_int k \<le> q"
  shows "k \<le> round_half_even q"
proof -
  have "k \<le> \<lfloor>q\<rfloor>" using assms by (simp add: le_floor_iff)
  then show ?thesis by (simp add: round_half_even_def Let_def)
qed

lemma round_half_even_le:
  assumes "q \<le> of_int k"
  shows "round_half_even q \<le> k"
proof -
  have f: "\<lfloor>q\<rfloor> \<le> k" using assms by (simp add: floor_le_iff)
  have up: "\<lfloor>q\<rfloor> + 1 \<le> k" if "0 < q - of_int \<lfloor>q\<rfloor>"
  proof -
    have "of_int \<lfloor>q\<rfloor> < q" using that by simp
    then have "of_int \<lfloor>q\<rfloor> < (of_int k :: rat)" using assms by linarith
    then have "\<lfloor>q\<rfloor> < k" by simp
    then show ?thesis by simp
  qed
  show ?thesis
    using f up unfolding round_half_even_def Let_def by (auto split: if_splits)
qed

lemma round_half_even_close: "\<bar>of_int (round_half_even q) - q\<bar> \<le> 1 / 2"
proof -
  have "of_int \<lfloor>q\<rfloor> \<le> q" "q < of_int \<lfloor>q\<rfloor> + 1" by linarith+
  then show ?thesis
    unfolding round_half_even_def Let_def by (auto split: if_splits)
qed

lemma round_half_even_nearest:
  assumes "\<bar>q - of_int n\<bar> < 1 / 2"
  shows "round_half_even q = n"
proof (cases "of_int n \<le> q")
  case True
  then have "\<lfloor>q\<rfloor> = n" using assms by (intro floor_unique) auto
  then show ?thesis using assms True by (simp add: round_half_even_def Let_def)
next
  case False
  then have "\<lfloor>q\<rfloor> = n - 1" using assms by (intro floor_unique) auto
  then show ?thesis using assms False by (auto simp add: round_half_even_def Let_def)
qed

lemma float_round_scaled:
  assumes "1 \<le> x" "x < 512"
  shows "\<exists>k::nat. 44 \<le> k \<and> float_round x = of_int (round_half_even (x * 2 ^ k)) / 2 ^ k"
proof -
  have f: "1 \<le> \<lfloor>x\<rfloor>" "\<lfloor>x\<rfloor> < 2 ^ 9"
    using assms by (simp_all add: le_floor_iff floor_less_iff)
  have hi: "bitlen \<lfloor>x\<rfloor> \<le> 9"
    using f(2) bitlen_le_iff_power [of "\<lfloor>x\<rfloor>" 9] by simp
  have lo: "1 \<le> bitlen \<lfloor>x\<rfloor>"
    using f(1) bitlen_ge_iff_power [of 1 "\<lfloor>x\<rfloor>"] by simp
  define k where "k = nat (53 - bitlen \<lfloor>x\<rfloor>)"
  have k: "44 \<le> k" using hi by (simp add: k_def)
  have e: "float_exponent \<bar>x\<bar> - 52 = - int k"
    using assms(1) hi by (simp add: float_exponent_def k_def)
  have u: "(2::rat) powi (- int k) = 1 / 2 ^ k"
    by (simp add: power_int_minus_divide)
  have "x \<noteq> 0" using assms(1) by simp
  then have "float_round x = of_int (round_half_even (x * 2 ^ k)) / 2 ^ k"
    by (simp add: float_round_def Let_def e u)
  with k show ?thesis by blast
qed

lemma float_round_bounds:
  assumes "1 \<le> x" "x < 512" "of_int lo \<le> x" "x \<le> of_int hi"
  shows "of_int lo \<le> float_round x \<and> float_round x \<le> of_int hi"
proof -
  from float_round_scaled [OF assms(1,2)]
  obtain k :: nat where r: "float_round x = of_int (round_half_even (x * 2 ^ k)) / 2 ^ k"
    by blast
  have "of_int (lo * 2 ^ k) \<le> x * 2 ^ k" using assms(3) by simp
  then have "lo * 2 ^ k \<le> round_half_even (x * 2 ^ k)" by (rule round_half_even_ge)
  then have "(of_int (lo * 2 ^ k) :: rat) \<le> of_int (round_half_even (x * 2 ^ k))"
    unfolding of_int_le_iff .
  then have a: "of_int lo \<le> float_round x" by (simp add: r field_simps)
  have "x * 2 ^ k \<le> of_int (hi * 2 ^ k)" using assms(4) by simp
  then have "round_half_even (x * 2 ^ k) \<le> hi * 2 ^ k" by (rule round_half_even_le)
  then have "(of_int (round_half_even (x * 2 ^ k)) :: rat) \<le> of_int (hi * 2 ^ k)"
    unfolding of_int_le_iff .
  then have "float_round x \<le> of_int hi" by (simp add: r field_simps)
  with a show ?thesis by simp
qed

lemma float_round_close:
  assumes "1 \<le> x" "x < 512"
  shows "\<bar>float_round x - x\<bar> \<le> 1 / 2 ^ 45"
proof -
  from float_round_scaled [OF assms]
  obtain k :: nat where k: "44 \<le> k"
    and r: "float_round x = of_int (round_half_even (x * 2 ^ k)) / 2 ^ k"
    by blast
  have "float_round x - x = (of_int (round_half_even (x * 2 ^ k)) - x * 2 ^ k) / 2 ^ k"
    by (simp add: r field_simps)
  then have "\<bar>float_round x - x\<bar> = \<bar>of_int (round_half_even (x * 2 ^ k)) - x * 2 ^ k\<bar> / 2 ^ k"
    by (simp add: abs_divide)
  also have "\<dots> \<le> (1 / 2) / 2 ^ k"
    by (intro divide_right_mono round_half_even_close) simp
  also have "\<dots> \<le> (1 / 2) / 2 ^ 44"
    using k by (intro divide_left_mono power_increasing) simp_all
  finally show ?thesis by simp
qed

lemma round2_price:
  assumes "10 \<le> x" "x \<le> 500"
  shows "\<exists>n. 1000 \<le> n \<and> n \<le> 50000 \<and> round2 x = float_round (of_int n / 100) \<and>
           10 \<le> round2 x \<and> round2 x \<le> 500 \<and> round2 (round2 x) = round2 x"
proof -
  define n where "n = round_half_even (x * 100)"
  define z :: rat where "z = of_int n / 100"
  have "of_int 1000 \<le> x * 100" using assms(1) by simp
  then have lo: "1000 \<le> n" unfolding n_def by (rule round_half_even_ge)
  have "x * 100 \<le> of_int 50000" using assms(2) by simp
  then have hi: "n \<le> 50000" unfolding n_def by (rule round_half_even_le)
  have "(of_int 1000 :: rat) \<le> of_int n" "(of_int n :: rat) \<le> of_int 50000"
    using lo hi unfolding of_int_le_iff by simp_all
  then have z: "10 \<le> z" "z \<le> 500" by (simp_all add: z_def)
  then have z1: "1 \<le> z" "z < 512" by simp_all
  have r: "round2 x = float_round z" by (simp add: round2_def n_def z_def)
  have b: "of_int 10 \<le> float_round z \<and> float_round z \<le> of_int 500"
    by (rule float_round_bounds [OF z1]) (use z in simp_all)
  have "\<bar>float_round z - z\<bar> \<le> 1 / 2 ^ 45" by (rule float_round_close [OF z1])
  then have "\<bar>float_round z - z\<bar> * 100 < 1 / 2" by simp
  moreover have "\<bar>float_round z * 100 - of_int n\<bar> = \<bar>float_round z - z\<bar> * 100"
    by (simp add: z_def abs_if)
  ultimately have "round_half_even (float_round z * 100) = n"
    by (intro round_half_even_nearest) simp
  then have "round2 (float_round z) = float_round z"
    by (simp add: round2_def z_def)
  with lo hi r b show ?thesis by (auto simp: z_def)
qed

lemma formas_total: "last (accumulate 0 (map snd formas_pagamento)) = 1"
  by (simp add: formas_pagamento_def)

lemma categorias_total: "last (accumulate 0 (map snd categorias_produtos)) = 1"
  by (simp add: categorias_produtos_def)

lemma gerar_forma_pagamento_Inr:
  "\<exists>d \<in> set (map fst formas_pagamento). gerar_forma_pagamento rnd =
     Inr \<lparr>FormaPagamento.descricao = d,
          prazo_pagamento = (if d = ''Boleto'' then random_randint 0 30 (rnd 1) else 0),
          desconto = (if d = ''Dinheiro'' then random_uniform 0 (1 / 10) (rnd 2) else 0)\<rparr>"
proof -
  have a: "length (map snd formas_pagamento) = length (map fst formas_pagamento)" by simp
  have b: "map fst formas_pagamento \<noteq> []" by (simp add: formas_pagamento_def)
  have c: "0 < last (accumulate 0 (map snd formas_pagamento))" by (simp add: formas_total)
  from random_choices_member [OF a b c, of "rnd 0"]
  obtain d where "d \<in> set (map fst formas_pagamento)"
    "random_choices (map fst formas_pagamento) (map snd formas_pagamento) (rnd 0) = Inr d"
    by blast
  then show ?thesis by (auto simp: gerar_forma_pagamento_def)
qed


lemma gerar_produto_Inr:
  "\<exists>c \<in> set (map fst categorias_produtos). \<exists>u \<in> set [''UN'', ''KG'', ''M'', ''M2'', ''M3''].
     gerar_produto fake rnd =
       Inr \<lparr>Produto.descricao = fake_sentence fake 4 (rnd 1),
            categoria = c,
            preco_unitario = round2 (random_uniform 10 500 (rnd 2)),
            peso_sazonal = random_uniform (8 / 10) (12 / 10) (rnd 3),
            unidade_medida = u\<rparr>"
proof -
  have a: "length (map snd categorias_produtos) = length (map fst categorias_produtos)" by simp
  have b: "map fst categorias_produtos \<noteq> []" by (simp add: categorias_produtos_def)
  have c: "0 < last (accumulate 0 (map snd categorias_produtos))" by (simp add: categorias_total)
  from random_choices_member [OF a b c, of "rnd 0"]
  obtain d where d: "d \<in> set (map fst categorias_produtos)"
    "random_choices (map fst categorias_produtos) (map snd categorias_produtos) (rnd 0) = Inr d"
    by blast
  have "[''UN'', ''KG'', ''M'', ''M2'', ''M3''] \<noteq> []" by simp
  from random_choice_member [OF this, of "rnd 4"]
  obtain u where u: "u \<in> set [''UN'', ''KG'', ''M'', ''M2'', ''M3'']"
    "random_choice [''UN'', ''KG'', ''M'', ''M2'', ''M3''] (rnd 4) = Inr u"
    by blast
  have "gerar_produto fake rnd =
       Inr \<lparr>Produto.descricao = fake_sentence fake 4 (rnd 1),
            categoria = d,
            preco_unitario = round2 (random_uniform 10 500 (rnd 2)),
            peso_sazonal = random_uniform (8 / 10) (12 / 10) (rnd 3),
            unidade_medida = u\<rparr>"
    unfolding gerar_produto_def d(2) u(2) by simp
  with d(1) u(1) show ?thesis by blast
qed

text \<open>
  Claim C4. Every FormaPagamento that \<^verbatim>\<open>gerar_forma_pagamento\<close> produces (it always produces
  one) has a \<open>descricao\<close> among the four fixed methods; its \<open>prazo_pagamento\<close> is 0 unless the
  method is Boleto, and its \<open>desconto\<close> is 0 unless the method is Dinheiro.
\<close>

theorem gerar_forma_pagamento_fields:
  "\<exists>fp. gerar_forma_pagamento rnd = Inr fp \<and>
     FormaPagamento.descricao fp \<in>
       {''Dinheiro'', ''Cart'' @ [CHR 0xE3] @ ''o de Cr'' @ [CHR 0xE9] @ ''dito'',
        ''Cart'' @ [CHR 0xE3] @ ''o de D'' @ [CHR 0xE9] @ ''bito'', ''Boleto''} \<and>
     (FormaPagamento.descricao fp \<noteq> ''Boleto'' \<longrightarrow> prazo_pagamento fp = 0) \<and>
     (FormaPagamento.descricao fp \<noteq> ''Dinheiro'' \<longrightarrow> desconto fp = 0)"
proof -
  from gerar_forma_pagamento_Inr [of rnd]
  obtain d where d: "d \<in> set (map fst formas_pagamento)"
    and g: "gerar_forma_pagamento rnd =
     Inr \<lparr>FormaPagamento.descricao = d,
          prazo_pagamento = (if d = ''Boleto'' then random_randint 0 30 (rnd 1) else 0),
          desconto = (if d = ''Dinheiro'' then random_uniform 0 (1 / 10) (rnd 2) else 0)\<rparr>"
    by blast
  from d have "d \<in> {''Dinheiro'', ''Cart'' @ [CHR 0xE3] @ ''o de Cr'' @ [CHR 0xE9] @ ''dito'',
        ''Cart'' @ [CHR 0xE3] @ ''o de D'' @ [CHR 0xE9] @ ''bito'', ''Boleto''}"
    by (simp add: formas_pagamento_def)
  with g show ?thesis by simp
qed

lemmas eval_simps = random_choices_def random_random_def random_randint_def randbelow_def
  random_uniform_def bisect_done bisect_left bisect_right Let_def

lemma gerar_forma_pagamento_credito: "gerar_forma_pagamento (\<lambda>_. 4503599627370496) =
     Inr \<lparr>FormaPagamento.descricao = ''Cart'' @ [CHR 0xE3] @ ''o de Cr'' @ [CHR 0xE9] @ ''dito'',
          prazo_pagamento = 0, desconto = 0\<rparr>"
  by (simp add: gerar_forma_pagamento_def formas_pagamento_def eval_simps)

lemma gerar_forma_pagamento_boleto: "gerar_forma_pagamento (\<lambda>i. if i = 0 then 9007199254740991 else 0) =
     Inr \<lparr>FormaPagamento.descricao = ''Boleto'', prazo_pagamento = 0, desconto = 0\<rparr>"
  by (simp add: gerar_forma_pagamento_def formas_pagamento_def eval_simps)

lemma gerar_forma_pagamento_dinheiro: "gerar_forma_pagamento (\<lambda>_. 0) =
     Inr \<lparr>FormaPagamento.descricao = ''Dinheiro'', prazo_pagamento = 0, desconto = 0\<rparr>"
  by (simp add: gerar_forma_pagamento_def formas_pagamento_def eval_simps)

text \<open>The theorem at a draw that selects the credit card: both fields are 0.\<close>

theorem gerar_forma_pagamento_fields_witness:
  "\<exists>fp. gerar_forma_pagamento (\<lambda>_. 4503599627370496) = Inr fp \<and>
     FormaPagamento.descricao fp \<noteq> ''Boleto'' \<and> FormaPagamento.descricao fp \<noteq> ''Dinheiro'' \<and>
     prazo_pagamento fp = 0 \<and> desconto fp = 0"
  using gerar_forma_pagamento_fields [of "\<lambda>_. 4503599627370496"] unfolding gerar_forma_pagamento_credito by simp

text \<open>
  Claim C10. For every FormaPagamento produced, \<open>desconto\<close> lies in \<open>[0, 0.1]\<close> and
  \<open>prazo_pagamento\<close> in \<open>[0, 30]\<close>; a Boleto can come with the term 0 and a Dinheiro with the
  discount 0, so the two methods do not guarantee nonzero values.
\<close>

theorem gerar_forma_pagamento_ranges:
  "(\<exists>fp. gerar_forma_pagamento rnd = Inr fp \<and>
      0 \<le> desconto fp \<and> desconto fp \<le> 1 / 10 \<and>
      0 \<le> prazo_pagamento fp \<and> prazo_pagamento fp \<le> 30) \<and>
   (\<exists>r fp. gerar_forma_pagamento r = Inr fp \<and>
      FormaPagamento.descricao fp = ''Boleto'' \<and> prazo_pagamento fp = 0) \<and>
   (\<exists>r fp. gerar_forma_pagamento r = Inr fp \<and>
      FormaPagamento.descricao fp = ''Dinheiro'' \<and> desconto fp = 0)"
proof (intro conjI)
  from gerar_forma_pagamento_Inr [of rnd]
  obtain d where g: "gerar_forma_pagamento rnd =
     Inr \<lparr>FormaPagamento.descricao = d,
          prazo_pagamento = (if d = ''Boleto'' then random_randint 0 30 (rnd 1) else 0),
          desconto = (if d = ''Dinheiro'' then random_uniform 0 (1 / 10) (rnd 2) else 0)\<rparr>"
    by blast
  have u: "0 \<le> random_uniform 0 (1 / 10) (rnd 2) \<and> random_uniform 0 (1 / 10) (rnd 2) \<le> 1 / 10"
    by (rule random_uniform_bounds) simp
  have i: "0 \<le> random_randint 0 30 (rnd 1) \<and> random_randint 0 30 (rnd 1) \<le> 30"
    by (rule random_randint_bounds) simp
  show "\<exists>fp. gerar_forma_pagamento rnd = Inr fp \<and>
      0 \<le> desconto fp \<and> desconto fp \<le> 1 / 10 \<and>
      0 \<le> prazo_pagamento fp \<and> prazo_pagamento fp \<le> 30"
    using g u i by simp
next
  show "\<exists>r fp. gerar_forma_pagamento r = Inr fp \<and>
      FormaPagamento.descricao fp = ''Boleto'' \<and> prazo_pagamento fp = 0"
    using gerar_forma_pagamento_boleto by (intro exI [of _ "\<lambda>i. if i = 0 then 9007199254740991 else 0"]) simp
next
  show "\<exists>r fp. gerar_forma_pagamento r = Inr fp \<and>
      FormaPagamento.descricao fp = ''Dinheiro'' \<and> desconto fp = 0"
    using gerar_forma_pagamento_dinheiro by (intro exI [of _ "\<lambda>_. 0"]) simp
qed

text \<open>
  Claim C5. Every Produto that \<^verbatim>\<open>gerar_produto\<close> produces (it always produces one) has a
  \<open>preco_unitario\<close> in \<open>[10, 500]\<close> that is rounded to 2 decimal places: it is the float nearest
  to a whole number of hundredths from 10.00 to 500.00, and \<^verbatim>\<open>round(preco_unitario, 2)\<close> gives
  it back unchanged. Its \<open>peso_sazonal\<close> lies in \<open>[0.8, 1.2]\<close>.
\<close>

theorem gerar_produto_ranges:
  "\<exists>p. gerar_produto fake rnd = Inr p \<and>
     10 \<le> preco_unitario p \<and> preco_unitario p \<le> 500 \<and>
     (\<exists>n::int. 1000 \<le> n \<and> n \<le> 50000 \<and>
        preco_unitario p = float_round (of_int n / 100)) \<and>
     round2 (preco_unitario p) = preco_unitario p \<and>
     8 / 10 \<le> peso_sazonal p \<and> peso_sazonal p \<le> 12 / 10"
proof -
  from gerar_produto_Inr [of fake rnd]
  obtain c u where g: "gerar_produto fake rnd =
       Inr \<lparr>Produto.descricao = fake_sentence fake 4 (rnd 1),
            categoria = c,
            preco_unitario = round2 (random_uniform 10 500 (rnd 2)),
            peso_sazonal = random_uniform (8 / 10) (12 / 10) (rnd 3),
            unidade_medida = u\<rparr>"
    by blast
  have x: "10 \<le> random_uniform 10 500 (rnd 2) \<and> random_uniform 10 500 (rnd 2) \<le> 500"
    by (rule random_uniform_bounds) simp
  from round2_price [of "random_uniform 10 500 (rnd 2)"] x
  obtain n where p: "1000 \<le> n" "n \<le> 50000"
    "round2 (random_uniform 10 500 (rnd 2)) = float_round (of_int n / 100)"
    "10 \<le> round2 (random_uniform 10 500 (rnd 2))" "round2 (random_uniform 10 500 (rnd 2)) \<le> 500"
    "round2 (round2 (random_uniform 10 500 (rnd 2))) = round2 (random_uniform 10 500 (rnd 2))"
    by blast
  have w: "8 / 10 \<le> random_uniform (8 / 10) (12 / 10) (rnd 3) \<and>
        random_uniform (8 / 10) (12 / 10) (rnd 3) \<le> 12 / 10"
    by (rule random_uniform_bounds) simp
  have "\<exists>n::int. 1000 \<le> n \<and> n \<le> 50000 \<and>
      round2 (random_uniform 10 500 (rnd 2)) = float_round (of_int n / 100)"
    using p(1,2,3) by blast
  then show ?thesis using g p(4,5,6) w by simp
qed

subsection \<open>What \<^verbatim>\<open>gerar_venda\<close> returns\<close>

lemma date_between_days:
  "date_between fake (DaysAgo n) Today raw =
     Inr (random_randint (today fake - int n) (today fake) raw)"
  by (simp add: date_between_def Let_def)

lemma date_between_one_year:
  "date_between fake (YearsAgo (Suc 0)) Today raw =
     Inr (random_randint (today fake - 366) (today fake) raw)"
proof -
  have "\<lfloor>- (36524 / 100) :: rat\<rfloor> = - 366" by (intro floor_unique) simp_all
  then show ?thesis by (simp add: date_between_def Let_def)
qed

lemma store_query_all: "store (query_all t s) = store (flush s)"
  by (simp add: query_all_def Let_def)

lemma flush_query_all: "flush (query_all t s) = query_all t s"
  by (simp add: query_all_def flush_def Let_def)

lemma selects_query_all: "selects (query_all t s) = selects s @ [t]"
  by (simp add: query_all_def flush_def Let_def)

lemma selects_flush: "selects (flush s) = selects s"
  by (simp add: flush_def)

lemma gerar_venda_empty:
  assumes "tb_clientes (store (flush s)) = [] \<or> tb_produtos (store (flush s)) = [] \<or>
           tb_formas_pagamento (store (flush s)) = [] \<or> tb_status_entrega (store (flush s)) = [] \<or>
           tb_caixas (store (flush s)) = []"
  shows "gerar_venda fake rnd s = Inl IndexError"
  using assms
  by (auto simp add: gerar_venda_def Let_def random_choice_def store_query_all flush_query_all)

lemma gerar_venda_nonempty:
  assumes "tb_clientes (store (flush s)) \<noteq> []" "tb_produtos (store (flush s)) \<noteq> []"
    "tb_formas_pagamento (store (flush s)) \<noteq> []" "tb_status_entrega (store (flush s)) \<noteq> []"
    "tb_caixas (store (flush s)) \<noteq> []"
  shows "gerar_venda fake rnd s =
     Inr (\<lparr>id_cliente = fst (tb_clientes (store (flush s)) !
                randbelow (length (tb_clientes (store (flush s)))) (rnd 0)),
           id_produto = fst (tb_produtos (store (flush s)) !
                randbelow (length (tb_produtos (store (flush s)))) (rnd 1)),
           data_venda = random_randint (today fake - 366) (today fake) (rnd 5),
           valor_venda = preco_unitario (snd (tb_produtos (store (flush s)) !
                randbelow (length (tb_produtos (store (flush s)))) (rnd 1))) *
                of_int (random_randint 1 10 (rnd 6)),
           quantidade = random_randint 1 10 (rnd 7),
           id_forma_pagamento = fst (tb_formas_pagamento (store (flush s)) !
                randbelow (length (tb_formas_pagamento (store (flush s)))) (rnd 2)),
           id_status_entrega = fst (tb_status_entrega (store (flush s)) !
                randbelow (length (tb_status_entrega (store (flush s)))) (rnd 3)),
           data_entrega =
             (if StatusEntrega.descricao (snd (tb_status_entrega (store (flush s)) !
                   randbelow (length (tb_status_entrega (store (flush s)))) (rnd 3))) = ''Entregue''
              then Some (random_randint (today fake - 30) (today fake) (rnd 8)) else None),
           id_caixa = fst (tb_caixas (store (flush s)) !
                randbelow (length (tb_caixas (store (flush s)))) (rnd 4))\<rparr>,
          query_all ''caixas'' (query_all ''status_entrega'' (query_all ''formas_pagamento''
            (query_all ''produtos'' (query_all ''clientes'' s)))))"
  using assms
  by (simp add: gerar_venda_def Let_def random_choice_def store_query_all flush_query_all
      date_between_days date_between_one_year)

lemma gerar_venda_example:
  "gerar_venda example_fake example_rnd (open_session example_db) = Inr (example_venda, example_after)"
  by (simp add: gerar_venda_nonempty flush_def open_session_def example_db_def example_fake_def
      example_rnd_def example_venda_def example_after_def query_all_def Let_def
      random_randint_def randbelow_def)


lemma gerar_venda_example_rows:
  "gerar_venda example_fake example_rnd_rows (open_session example_db_rows) =
     Inr (example_venda_rows, example_after_rows)"
  by (simp add: gerar_venda_nonempty flush_def open_session_def example_db_rows_def example_db_def
      example_fake_def example_rnd_rows_def example_venda_rows_def example_after_rows_def
      query_all_def Let_def random_randint_def randbelow_def numeral_2_eq_2 [symmetric])

lemma ymd2ord_examples:
  "ymd2ord 2026 11 4 = 739924" "ymd2ord 2025 11 4 = 739559" "ymd2ord 2025 11 3 = 739558"
  by (simp_all add: ymd2ord_def days_before_year_def days_before_month_def days_in_month_def
      is_leap_def Let_def)

lemma gerar_venda_example_2026:
  "gerar_venda example_fake_2026 example_rnd (open_session example_db) =
     Inr (example_venda\<lparr>data_venda := 739558, data_entrega := Some 739894\<rparr>, example_after)"
  by (simp add: gerar_venda_nonempty flush_def open_session_def example_db_def example_fake_def
      example_fake_2026_def ymd2ord_examples
      example_rnd_def example_venda_def example_after_def query_all_def Let_def
      random_randint_def randbelow_def)

lemma randbelow_uniform:
  assumes "j < n"
  shows "card {raw. raw < m * n \<and> randbelow n raw = j} = m"
proof -
  have "{raw. raw < m * n \<and> raw mod n = j} = (\<lambda>q. q * n + j) ` {..<m}"
  proof (intro set_eqI iffI)
    fix raw
    assume "raw \<in> {raw. raw < m * n \<and> raw mod n = j}"
    then have a: "raw < m * n" "raw mod n = j" by simp_all
    have "raw div n < m" using a(1) assms by (simp add: less_mult_imp_div_less)
    moreover have "raw = raw div n * n + j" using a(2) by (metis div_mult_mod_eq)
    ultimately show "raw \<in> (\<lambda>q. q * n + j) ` {..<m}" by blast
  next
    fix raw
    assume "raw \<in> (\<lambda>q. q * n + j) ` {..<m}"
    then obtain q where q: "q < m" "raw = q * n + j" by auto
    have "q * n + j < q * n + n" using assms by simp
    also have "\<dots> = Suc q * n" by simp
    also have "\<dots> \<le> m * n" using q(1) by (intro mult_le_mono1) simp
    finally have "raw < m * n" using q(2) by simp
    moreover have "raw mod n = j" using assms q(2) by simp
    ultimately show "raw \<in> {raw. raw < m * n \<and> raw mod n = j}" by simp
  qed
  moreover have "inj_on (\<lambda>q. q * n + j) {..<m}"
    using assms by (intro inj_onI) simp
  ultimately show ?thesis by (simp add: randbelow_def card_image)
qed

lemma gerar_venda_InrD:
  assumes "gerar_venda fake rnd s = Inr (v, s')"
  shows "tb_clientes (store s') \<noteq> []" and "tb_produtos (store s') \<noteq> []"
    and "tb_formas_pagamento (store s') \<noteq> []" and "tb_status_entrega (store s') \<noteq> []"
    and "tb_caixas (store s') \<noteq> []"
    and "store s' = store (flush s)"
    and "pending s' = []"
    and "selects s' =
          selects s @ [''clientes'', ''produtos'', ''formas_pagamento'', ''status_entrega'', ''caixas'']"
    and "id_cliente v =
          fst (tb_clientes (store s') ! randbelow (length (tb_clientes (store s'))) (rnd 0))"
    and "id_produto v =
          fst (tb_produtos (store s') ! randbelow (length (tb_produtos (store s'))) (rnd 1))"
    and "id_forma_pagamento v =
          fst (tb_formas_pagamento (store s') !
                 randbelow (length (tb_formas_pagamento (store s'))) (rnd 2))"
    and "id_status_entrega v =
          fst (tb_status_entrega (store s') !
                 randbelow (length (tb_status_entrega (store s'))) (rnd 3))"
    and "id_caixa v =
          fst (tb_caixas (store s') ! randbelow (length (tb_caixas (store s'))) (rnd 4))"
    and "data_venda v =
          random_randint (today fake - 366) (today fake) (rnd 5)"
    and "valor_venda v =
          preco_unitario (snd (tb_produtos (store s') !
              randbelow (length (tb_produtos (store s'))) (rnd 1))) *
          of_int (random_randint 1 10 (rnd 6))"
    and "quantidade v = random_randint 1 10 (rnd 7)"
    and "data_entrega v =
          (if StatusEntrega.descricao (snd (tb_status_entrega (store s') !
                randbelow (length (tb_status_entrega (store s'))) (rnd 3))) = ''Entregue''
           then Some (random_randint (today fake - 30) (today fake) (rnd 8)) else None)"
    and "s' = query_all ''caixas'' (query_all ''status_entrega'' (query_all ''formas_pagamento''
            (query_all ''produtos'' (query_all ''clientes'' s))))"
proof -
  have ne: "tb_clientes (store (flush s)) \<noteq> []" "tb_produtos (store (flush s)) \<noteq> []"
    "tb_formas_pagamento (store (flush s)) \<noteq> []" "tb_status_entrega (store (flush s)) \<noteq> []"
    "tb_caixas (store (flush s)) \<noteq> []"
    using assms gerar_venda_empty [of s fake rnd] by auto
  show s': "s' = query_all ''caixas'' (query_all ''status_entrega'' (query_all ''formas_pagamento''
            (query_all ''produtos'' (query_all ''clientes'' s))))"
    using assms unfolding gerar_venda_nonempty [OF ne] by simp
  show st: "store s' = store (flush s)"
    by (simp add: s' store_query_all flush_query_all)
  show "pending s' = []"
    by (simp add: s' query_all_def flush_def Let_def)
  show "selects s' =
          selects s @ [''clientes'', ''produtos'', ''formas_pagamento'', ''status_entrega'', ''caixas'']"
    by (simp add: s' selects_query_all)
  show "tb_clientes (store s') \<noteq> []" "tb_produtos (store s') \<noteq> []"
    "tb_formas_pagamento (store s') \<noteq> []" "tb_status_entrega (store s') \<noteq> []"
    "tb_caixas (store s') \<noteq> []"
    using ne by (simp_all add: st)
  show "id_cliente v =
          fst (tb_clientes (store s') ! randbelow (length (tb_clientes (store s'))) (rnd 0))"
    using assms unfolding gerar_venda_nonempty [OF ne] st by auto
  show "id_produto v =
          fst (tb_produtos (store s') ! randbelow (length (tb_produtos (store s'))) (rnd 1))"
    using assms unfolding gerar_venda_nonempty [OF ne] st by auto
  show "id_forma_pagamento v =
          fst (tb_formas_pagamento (store s') !
                 randbelow (length (tb_formas_pagamento (store s'))) (rnd 2))"
    using assms unfolding gerar_venda_nonempty [OF ne] st by auto
  show "id_status_entrega v =
          fst (tb_status_entrega (store s') !
                 randbelow (length (tb_status_entrega (store s'))) (rnd 3))"
    using assms unfolding gerar_venda_nonempty [OF ne] st by auto
  show "id_caixa v =
          fst (tb_caixas (store s') ! randbelow (length (tb_caixas (store s'))) (rnd 4))"
    using assms unfolding gerar_venda_nonempty [OF ne] st by auto
  show "data_venda v =
          random_randint (today fake - 366) (today fake) (rnd 5)"
    using assms unfolding gerar_venda_nonempty [OF ne] st by auto
  show "valor_venda v =
          preco_unitario (snd (tb_produtos (store s') !
              randbelow (length (tb_produtos (store s'))) (rnd 1))) *
          of_int (random_randint 1 10 (rnd 6))"
    using assms unfolding gerar_venda_nonempty [OF ne] st by auto
  show "quantidade v = random_randint 1 10 (rnd 7)"
    using assms unfolding gerar_venda_nonempty [OF ne] st by auto
  show "data_entrega v =
          (if StatusEntrega.descricao (snd (tb_status_entrega (store s') !
                randbelow (length (tb_status_entrega (store s'))) (rnd 3))) = ''Entregue''
           then Some (random_randint (today fake - 30) (today fake) (rnd 8)) else None)"
    using assms unfolding gerar_venda_nonempty [OF ne] st by auto
qed


text \<open>
  Claim C1, as the code runs. On the example store the product costs 10.00; the call draws 2 for
  \<open>valor_venda\<close> and 3 for \<open>quantidade\<close>, so the sale has the amount 20 and the quantity 3.
\<close>

theorem gerar_venda_valor_differs_from_quantidade:
  "gerar_venda example_fake example_rnd (open_session example_db) =
     Inr (example_venda, example_after) \<and>
   tb_produtos (store example_after) = tb_produtos example_db \<and>
   id_produto example_venda = fst (hd (tb_produtos example_db)) \<and>
   preco_unitario (snd (hd (tb_produtos example_db))) = 10 \<and>
   quantidade example_venda = 3 \<and>
   valor_venda example_venda = 20 \<and>
   valor_venda example_venda \<noteq>
     preco_unitario (snd (hd (tb_produtos example_db))) * of_int (quantidade example_venda)"
  by (simp add: gerar_venda_example)
     (simp add: example_venda_def example_after_def example_db_def open_session_def)

text \<open>
  Claim C2. For every sale that \<^verbatim>\<open>gerar_venda\<close> returns, \<open>data_entrega\<close> is set exactly when
  the sampled status row has the description Entregue; when set it lies from 30 days before
  today to today; \<open>data_venda\<close> lies from 366 days before today to today, 366 days being what
  Faker's offset \<^verbatim>\<open>"-1y"\<close> amounts to.
\<close>

theorem gerar_venda_dates:
  assumes "gerar_venda fake rnd s = Inr (v, s')"
  shows "id_status_entrega v =
           fst (tb_status_entrega (store s') !
                  randbelow (length (tb_status_entrega (store s'))) (rnd 3)) \<and>
         (data_entrega v \<noteq> None \<longleftrightarrow>
           StatusEntrega.descricao (snd (tb_status_entrega (store s') !
              randbelow (length (tb_status_entrega (store s'))) (rnd 3))) = ''Entregue'') \<and>
         (\<forall>d. data_entrega v = Some d \<longrightarrow> today fake - 30 \<le> d \<and> d \<le> today fake) \<and>
         today fake - 366 \<le> data_venda v \<and> data_venda v \<le> today fake"
proof -
  have a: "today fake - 30 \<le> random_randint (today fake - 30) (today fake) (rnd 8) \<and>
        random_randint (today fake - 30) (today fake) (rnd 8) \<le> today fake"
    by (rule random_randint_bounds) simp
  have b: "today fake - 366 \<le> random_randint (today fake - 366) (today fake) (rnd 5) \<and>
        random_randint (today fake - 366) (today fake) (rnd 5) \<le> today fake"
    by (rule random_randint_bounds) simp
  show ?thesis
    using a b gerar_venda_InrD(12) [OF assms]
    by (simp add: gerar_venda_InrD(14) [OF assms] gerar_venda_InrD(17) [OF assms])
qed

text \<open>
  The theorem at two runs: one with the status Entregue, where the sale is dated 366 days
  before today and delivered 30 days before today, both the earliest days allowed; one with
  the status Enviado, where no delivery date is set.
\<close>

theorem gerar_venda_dates_witness:
  "gerar_venda example_fake example_rnd (open_session example_db) =
     Inr (example_venda, example_after) \<and>
   data_entrega example_venda = Some (today example_fake - 30) \<and>
   data_venda example_venda = today example_fake - 366 \<and>
   gerar_venda example_fake example_rnd_rows (open_session example_db_rows) =
     Inr (example_venda_rows, example_after_rows) \<and>
   data_entrega example_venda_rows = None \<and>
   today example_fake - 366 \<le> data_venda example_venda_rows \<and>
   data_venda example_venda_rows \<le> today example_fake"
  using gerar_venda_example gerar_venda_dates [OF gerar_venda_example]
    gerar_venda_example_rows gerar_venda_dates [OF gerar_venda_example_rows]
  by (simp add: example_venda_def example_venda_rows_def example_fake_def)

text \<open>
  Claim C2 as it is worded does not hold for the sale date. On the 4th of November 2026 the
  day one year before today is the 4th of November 2025, 365 days back; the run below dates
  the sale on the 3rd of November 2025, the day before.
\<close>

theorem gerar_venda_data_venda_before_one_year_ago:
  "\<exists>v s'. gerar_venda example_fake_2026 example_rnd (open_session example_db) = Inr (v, s') \<and>
     today example_fake_2026 = ymd2ord 2026 11 4 \<and>
     data_venda v = ymd2ord 2025 11 3 \<and>
     data_venda v < ymd2ord 2025 11 4"
  by (simp add: gerar_venda_example_2026 ymd2ord_examples)
     (simp add: example_fake_2026_def ymd2ord_examples)

text \<open>
  Claim C3. When the session sees no row in one of the five reference tables, \<^verbatim>\<open>gerar_venda\<close>
  raises the IndexError of \<^verbatim>\<open>random.choice\<close> and returns no sale.
\<close>

theorem gerar_venda_raises_on_empty_table:
  assumes "tb_clientes (store (flush s)) = [] \<or> tb_produtos (store (flush s)) = [] \<or>
           tb_formas_pagamento (store (flush s)) = [] \<or> tb_status_entrega (store (flush s)) = [] \<or>
           tb_caixas (store (flush s)) = []"
  shows "gerar_venda fake rnd s = Inl IndexError"
  using assms by (rule gerar_venda_empty)

theorem gerar_venda_raises_on_empty_table_witness:
  "tb_caixas (store (flush (open_session (example_db\<lparr>tb_caixas := []\<rparr>)))) = [] \<and>
   gerar_venda example_fake example_rnd (open_session (example_db\<lparr>tb_caixas := []\<rparr>)) =
     Inl IndexError"
proof -
  have e: "tb_caixas (store (flush (open_session (example_db\<lparr>tb_caixas := []\<rparr>)))) = []"
    by (simp add: flush_def open_session_def)
  then show ?thesis
    using gerar_venda_raises_on_empty_table
      [of "open_session (example_db\<lparr>tb_caixas := []\<rparr>)" example_fake example_rnd]
    by simp
qed

text \<open>
  Claim C6. A call of \<^verbatim>\<open>gerar_venda\<close> that returns a sale has made five full-table reads, one
  per reference entity and in the order of the source. From each result it took the row at the
  position that \<^verbatim>\<open>_randbelow\<close> gives for the length of that result, each from a raw number of
  its own. The draw is uniform: of the first \<open>m * n\<close> raw numbers, exactly \<open>m\<close> select each
  position below \<open>n\<close>. The draws are independent: every combination of five rows is selected
  by some raw numbers. The five foreign keys of the sale are the keys of the five rows drawn,
  which are rows of the store with nothing left to flush.
\<close>

theorem gerar_venda_reads_and_keys:
  assumes "gerar_venda fake rnd s = Inr (v, s')"
  shows "selects s' =
           selects s @ [''clientes'', ''produtos'', ''formas_pagamento'', ''status_entrega'', ''caixas''] \<and>
         pending s' = [] \<and>
         id_cliente v =
           fst (tb_clientes (store s') ! randbelow (length (tb_clientes (store s'))) (rnd 0)) \<and>
         id_produto v =
           fst (tb_produtos (store s') ! randbelow (length (tb_produtos (store s'))) (rnd 1)) \<and>
         id_forma_pagamento v =
           fst (tb_formas_pagamento (store s') !
                  randbelow (length (tb_formas_pagamento (store s'))) (rnd 2)) \<and>
         id_status_entrega v =
           fst (tb_status_entrega (store s') !
                  randbelow (length (tb_status_entrega (store s'))) (rnd 3)) \<and>
         id_caixa v =
           fst (tb_caixas (store s') ! randbelow (length (tb_caixas (store s'))) (rnd 4)) \<and>
         id_cliente v \<in> fst ` set (tb_clientes (store s')) \<and>
         id_produto v \<in> fst ` set (tb_produtos (store s')) \<and>
         id_forma_pagamento v \<in> fst ` set (tb_formas_pagamento (store s')) \<and>
         id_status_entrega v \<in> fst ` set (tb_status_entrega (store s')) \<and>
         id_caixa v \<in> fst ` set (tb_caixas (store s')) \<and>
         (\<forall>n m j. j < n \<longrightarrow> card {raw. raw < m * n \<and> randbelow n raw = j} = m) \<and>
         (\<forall>j0 j1 j2 j3 j4.
            j0 < length (tb_clientes (store s')) \<and> j1 < length (tb_produtos (store s')) \<and>
            j2 < length (tb_formas_pagamento (store s')) \<and>
            j3 < length (tb_status_entrega (store s')) \<and> j4 < length (tb_caixas (store s')) \<longrightarrow>
            (\<exists>v'. gerar_venda fake
                     (\<lambda>i. if i = 0 then j0 else if i = 1 then j1 else if i = 2 then j2
                          else if i = 3 then j3 else if i = 4 then j4 else rnd i) s =
                     Inr (v', s') \<and>
               id_cliente v' = fst (tb_clientes (store s') ! j0) \<and>
               id_produto v' = fst (tb_produtos (store s') ! j1) \<and>
               id_forma_pagamento v' = fst (tb_formas_pagamento (store s') ! j2) \<and>
               id_status_entrega v' = fst (tb_status_entrega (store s') ! j3) \<and>
               id_caixa v' = fst (tb_caixas (store s') ! j4)))"
proof -
  have m: "fst (xs ! randbelow (length xs) r) \<in> fst ` set xs" if "xs \<noteq> []"
    for xs :: "(int \<times> 'a) list" and r
    using that by (simp add: randbelow_def)
  note d = gerar_venda_InrD [OF assms]
  have keys: "selects s' =
           selects s @ [''clientes'', ''produtos'', ''formas_pagamento'', ''status_entrega'', ''caixas''] \<and>
         pending s' = [] \<and>
         id_cliente v =
           fst (tb_clientes (store s') ! randbelow (length (tb_clientes (store s'))) (rnd 0)) \<and>
         id_produto v =
           fst (tb_produtos (store s') ! randbelow (length (tb_produtos (store s'))) (rnd 1)) \<and>
         id_forma_pagamento v =
           fst (tb_formas_pagamento (store s') !
                  randbelow (length (tb_formas_pagamento (store s'))) (rnd 2)) \<and>
         id_status_entrega v =
           fst (tb_status_entrega (store s') !
                  randbelow (length (tb_status_entrega (store s'))) (rnd 3)) \<and>
         id_caixa v =
           fst (tb_caixas (store s') ! randbelow (length (tb_caixas (store s'))) (rnd 4)) \<and>
         id_cliente v \<in> fst ` set (tb_clientes (store s')) \<and>
         id_produto v \<in> fst ` set (tb_produtos (store s')) \<and>
         id_forma_pagamento v \<in> fst ` set (tb_formas_pagamento (store s')) \<and>
         id_status_entrega v \<in> fst ` set (tb_status_entrega (store s')) \<and>
         id_caixa v \<in> fst ` set (tb_caixas (store s'))"
    using m [OF d(1), of "rnd 0"] m [OF d(2), of "rnd 1"] m [OF d(3), of "rnd 2"]
      m [OF d(4), of "rnd 3"] m [OF d(5), of "rnd 4"]
    unfolding d(9) d(10) d(11) d(12) d(13)
    by (simp add: d(7) d(8))
  have uniform: "\<forall>n m j. j < n \<longrightarrow> card {raw. raw < m * n \<and> randbelow n raw = j} = m"
    by (simp add: randbelow_uniform)
  have ne: "tb_clientes (store (flush s)) \<noteq> []" "tb_produtos (store (flush s)) \<noteq> []"
    "tb_formas_pagamento (store (flush s)) \<noteq> []" "tb_status_entrega (store (flush s)) \<noteq> []"
    "tb_caixas (store (flush s)) \<noteq> []"
    using d(1-5) unfolding d(6) by simp_all
  have every: "\<exists>v'. gerar_venda fake
                     (\<lambda>i. if i = 0 then j0 else if i = 1 then j1 else if i = 2 then j2
                          else if i = 3 then j3 else if i = 4 then j4 else rnd i) s =
                     Inr (v', s') \<and>
               id_cliente v' = fst (tb_clientes (store s') ! j0) \<and>
               id_produto v' = fst (tb_produtos (store s') ! j1) \<and>
               id_forma_pagamento v' = fst (tb_formas_pagamento (store s') ! j2) \<and>
               id_status_entrega v' = fst (tb_status_entrega (store s') ! j3) \<and>
               id_caixa v' = fst (tb_caixas (store s') ! j4)"
    if "j0 < length (tb_clientes (store s'))" "j1 < length (tb_produtos (store s'))"
      "j2 < length (tb_formas_pagamento (store s'))"
      "j3 < length (tb_status_entrega (store s'))" "j4 < length (tb_caixas (store s'))"
    for j0 j1 j2 j3 j4
    using that unfolding gerar_venda_nonempty [OF ne] d(18) [symmetric] d(6) [symmetric]
    by (simp add: randbelow_def)
  show ?thesis using keys uniform every by blast
qed

text \<open>
  The theorem at a run on tables of two and three rows, where the raw numbers 5, 3, 1, 4, 7
  select the positions 2, 1, 1, 1, 1, and the keys of the sale are the keys 5, 4, 6, 2, 3 of
  these rows; the raw numbers 0, 0, 0, 0, 0 select the first rows, with the keys 1.
\<close>

theorem gerar_venda_reads_and_keys_witness:
  "gerar_venda example_fake example_rnd_rows (open_session example_db_rows) =
     Inr (example_venda_rows, example_after_rows) \<and>
   selects example_after_rows =
     [''clientes'', ''produtos'', ''formas_pagamento'', ''status_entrega'', ''caixas''] \<and>
   id_cliente example_venda_rows = fst (tb_clientes example_db_rows ! 2) \<and>
   id_produto example_venda_rows = fst (tb_produtos example_db_rows ! 1) \<and>
   id_forma_pagamento example_venda_rows = fst (tb_formas_pagamento example_db_rows ! 1) \<and>
   id_status_entrega example_venda_rows = fst (tb_status_entrega example_db_rows ! 1) \<and>
   id_caixa example_venda_rows = fst (tb_caixas example_db_rows ! 1) \<and>
   id_cliente example_venda_rows = 5 \<and> id_produto example_venda_rows = 4 \<and>
   id_forma_pagamento example_venda_rows = 6 \<and> id_status_entrega example_venda_rows = 2 \<and>
   id_caixa example_venda_rows = 3 \<and>
   card {raw. raw < 4 * 3 \<and> randbelow 3 raw = 2} = 4 \<and>
   (\<exists>v'. gerar_venda example_fake
            (\<lambda>i. if i = 0 then 0 else if i = 1 then 0 else if i = 2 then 0
                 else if i = 3 then 0 else if i = 4 then 0 else example_rnd_rows i)
            (open_session example_db_rows) = Inr (v', example_after_rows) \<and>
      id_cliente v' = 1 \<and> id_produto v' = 1 \<and> id_forma_pagamento v' = 1 \<and>
      id_status_entrega v' = 1 \<and> id_caixa v' = 1)"
proof -
  note t = gerar_venda_reads_and_keys [OF gerar_venda_example_rows]
  have st: "store example_after_rows = example_db_rows"
    by (simp add: example_after_rows_def open_session_def)
  have len: "0 < length (tb_clientes example_db_rows)" "0 < length (tb_produtos example_db_rows)"
    "0 < length (tb_formas_pagamento example_db_rows)"
    "0 < length (tb_status_entrega example_db_rows)" "0 < length (tb_caixas example_db_rows)"
    by (simp_all add: example_db_rows_def)
  have hd: "fst (tb_clientes example_db_rows ! 0) = 1" "fst (tb_produtos example_db_rows ! 0) = 1"
    "fst (tb_formas_pagamento example_db_rows ! 0) = 1"
    "fst (tb_status_entrega example_db_rows ! 0) = 1" "fst (tb_caixas example_db_rows ! 0) = 1"
    by (simp_all add: example_db_rows_def example_db_def)
  from t have uniform: "\<forall>n m j. j < n \<longrightarrow> card {raw. raw < m * n \<and> randbelow n raw = j} = m"
    by blast
  have c: "card {raw. raw < 4 * 3 \<and> randbelow 3 raw = 2} = 4"
    using uniform [rule_format, of 2 3 4] by simp
  from t have every: "\<forall>j0 j1 j2 j3 j4.
            j0 < length (tb_clientes (store example_after_rows)) \<and>
            j1 < length (tb_produtos (store example_after_rows)) \<and>
            j2 < length (tb_formas_pagamento (store example_after_rows)) \<and>
            j3 < length (tb_status_entrega (store example_after_rows)) \<and>
            j4 < length (tb_caixas (store example_after_rows)) \<longrightarrow>
            (\<exists>v'. gerar_venda example_fake
                     (\<lambda>i. if i = 0 then j0 else if i = 1 then j1 else if i = 2 then j2
                          else if i = 3 then j3 else if i = 4 then j4 else example_rnd_rows i)
                     (open_session example_db_rows) =
                     Inr (v', example_after_rows) \<and>
               id_cliente v' = fst (tb_clientes (store example_after_rows) ! j0) \<and>
               id_produto v' = fst (tb_produtos (store example_after_rows) ! j1) \<and>
               id_forma_pagamento v' = fst (tb_formas_pagamento (store example_after_rows) ! j2) \<and>
               id_status_entrega v' = fst (tb_status_entrega (store example_after_rows) ! j3) \<and>
               id_caixa v' = fst (tb_caixas (store example_after_rows) ! j4))"
    by blast
  have e: "\<exists>v'. gerar_venda example_fake
            (\<lambda>i. if i = 0 then 0 else if i = 1 then 0 else if i = 2 then 0
                 else if i = 3 then 0 else if i = 4 then 0 else example_rnd_rows i)
            (open_session example_db_rows) = Inr (v', example_after_rows) \<and>
      id_cliente v' = 1 \<and> id_produto v' = 1 \<and> id_forma_pagamento v' = 1 \<and>
      id_status_entrega v' = 1 \<and> id_caixa v' = 1"
    using every [rule_format, of 0 0 0 0 0] len by (simp add: st hd)
  have k: "id_cliente example_venda_rows = fst (tb_clientes example_db_rows ! 2) \<and>
   id_produto example_venda_rows = fst (tb_produtos example_db_rows ! 1) \<and>
   id_forma_pagamento example_venda_rows = fst (tb_formas_pagamento example_db_rows ! 1) \<and>
   id_status_entrega example_venda_rows = fst (tb_status_entrega example_db_rows ! 1) \<and>
   id_caixa example_venda_rows = fst (tb_caixas example_db_rows ! 1) \<and>
   id_cliente example_venda_rows = 5 \<and> id_produto example_venda_rows = 4 \<and>
   id_forma_pagamento example_venda_rows = 6 \<and> id_status_entrega example_venda_rows = 2 \<and>
   id_caixa example_venda_rows = 3"
    by (simp add: example_venda_rows_def example_db_rows_def example_db_def)
  from t have "selects example_after_rows = selects (open_session example_db_rows) @
     [''clientes'', ''produtos'', ''formas_pagamento'', ''status_entrega'', ''caixas'']"
    by blast
  then have sel: "selects example_after_rows =
     [''clientes'', ''produtos'', ''formas_pagamento'', ''status_entrega'', ''caixas'']"
    by (simp add: open_session_def)
  show ?thesis using gerar_venda_example_rows sel k c e by simp
qed

text \<open>
  Claim C9. For every sale returned, \<open>valor_venda\<close> is the price of the sampled product times an
  integer from 1 to 10, and this integer comes from a draw of its own (call 6), not from the
  draw that sets \<open>quantidade\<close> (call 7), which is also from 1 to 10. There is a run where
  \<open>valor_venda\<close> is not the price times \<open>quantidade\<close>.
\<close>

theorem gerar_venda_valor_own_draw:
  assumes "gerar_venda fake rnd s = Inr (v, s')"
  shows "id_produto v =
           fst (tb_produtos (store s') ! randbelow (length (tb_produtos (store s'))) (rnd 1)) \<and>
         valor_venda v =
           preco_unitario (snd (tb_produtos (store s') !
              randbelow (length (tb_produtos (store s'))) (rnd 1))) *
           of_int (random_randint 1 10 (rnd 6)) \<and>
         1 \<le> random_randint 1 10 (rnd 6) \<and> random_randint 1 10 (rnd 6) \<le> 10 \<and>
         quantidade v = random_randint 1 10 (rnd 7) \<and>
         1 \<le> quantidade v \<and> quantidade v \<le> 10 \<and>
         (\<exists>f r s0 v0 s1. gerar_venda f r s0 = Inr (v0, s1) \<and>
            valor_venda v0 \<noteq>
              preco_unitario (snd (tb_produtos (store s1) !
                randbelow (length (tb_produtos (store s1))) (r 1))) * of_int (quantidade v0))"
proof -
  have k: "1 \<le> random_randint 1 10 (rnd 6) \<and> random_randint 1 10 (rnd 6) \<le> 10"
    by (rule random_randint_bounds) simp
  have q: "1 \<le> random_randint 1 10 (rnd 7) \<and> random_randint 1 10 (rnd 7) \<le> 10"
    by (rule random_randint_bounds) simp
  have "valor_venda example_venda \<noteq>
      preco_unitario (snd (tb_produtos (store example_after) !
        randbelow (length (tb_produtos (store example_after))) (example_rnd 1))) *
      of_int (quantidade example_venda)"
    by (simp add: example_venda_def example_after_def example_db_def open_session_def
        randbelow_def)
  with gerar_venda_example
  have ex: "\<exists>f r s0 v0 s1. gerar_venda f r s0 = Inr (v0, s1) \<and>
            valor_venda v0 \<noteq>
              preco_unitario (snd (tb_produtos (store s1) !
                randbelow (length (tb_produtos (store s1))) (r 1))) * of_int (quantidade v0)"
    by blast
  note d = gerar_venda_InrD [OF assms]
  show ?thesis
    using k q ex d(10) d(15) by (simp add: d(16))
qed

theorem gerar_venda_valor_own_draw_witness:
  "gerar_venda example_fake example_rnd (open_session example_db) =
     Inr (example_venda, example_after) \<and>
   valor_venda example_venda = 10 * of_int (random_randint 1 10 (example_rnd 6)) \<and>
   quantidade example_venda = random_randint 1 10 (example_rnd 7)"
  using gerar_venda_example gerar_venda_valor_own_draw [OF gerar_venda_example]
  by (simp add: example_after_def example_db_def open_session_def randbelow_def)

subsection \<open>Creating the schema twice\<close>

lemma distinct_metadata_tables: "distinct metadata_tables"
  by (simp add: metadata_tables_def)

lemma create_tables_distinct:
  assumes "distinct ts"
  shows "create_tables ts d =
           Inr (d\<lparr>schema := schema d @ filter (\<lambda>t. t \<notin> set (schema d)) ts\<rparr>)"
  using assms
proof (induction ts arbitrary: d)
  case Nil
  then show ?case by simp
next
  case (Cons t ts)
  show ?case
  proof (cases "t \<in> set (schema d)")
    case True
    then show ?thesis using Cons by simp
  next
    case False
    have "filter (\<lambda>t'. t' \<noteq> t \<and> t' \<notin> set (schema d)) ts = filter (\<lambda>t'. t' \<notin> set (schema d)) ts"
      using Cons.prems by (intro filter_cong) auto
    then show ?thesis using False Cons by (simp add: create_table_def)
  qed
qed

lemma create_all_eq:
  "create_all d =
     Inr (d\<lparr>schema := schema d @ filter (\<lambda>t. t \<notin> set (schema d)) metadata_tables\<rparr>)"
  unfolding create_all_def by (rule create_tables_distinct [OF distinct_metadata_tables])

text \<open>
  Claim C7. \<^verbatim>\<open>create_all\<close> raises no error on any store, and running it again on the store it
  leaves changes nothing and raises no error, although a plain CREATE TABLE of any of the six
  tables would then fail. It adds no table twice, leaves the rows alone, and on a store that
  already has the six tables it changes nothing.
\<close>

theorem create_all_idempotent:
  "\<exists>d'. create_all d = Inr d' \<and> create_all d' = Inr d' \<and>
     set (schema d') = set (schema d) \<union> set metadata_tables \<and>
     (distinct (schema d) \<longrightarrow> distinct (schema d')) \<and>
     (set metadata_tables \<subseteq> set (schema d) \<longrightarrow> d' = d) \<and>
     (\<forall>t \<in> set metadata_tables. create_table t d' = Inl OperationalError) \<and>
     tb_clientes d' = tb_clientes d \<and> tb_produtos d' = tb_produtos d \<and>
     tb_caixas d' = tb_caixas d \<and> tb_formas_pagamento d' = tb_formas_pagamento d \<and>
     tb_status_entrega d' = tb_status_entrega d \<and> tb_vendas d' = tb_vendas d"
proof -
  define d' where "d' = d\<lparr>schema := schema d @ filter (\<lambda>t. t \<notin> set (schema d)) metadata_tables\<rparr>"
  have s: "set (schema d') = set (schema d) \<union> set metadata_tables"
    by (auto simp: d'_def)
  have a: "create_all d = Inr d'" by (simp add: create_all_eq d'_def)
  have "filter (\<lambda>t. t \<notin> set (schema d')) metadata_tables = []"
    unfolding s by (simp add: filter_empty_conv)
  then have b: "create_all d' = Inr d'" by (simp add: create_all_eq)
  have c: "distinct (schema d')" if "distinct (schema d)"
    using that distinct_metadata_tables by (auto simp: d'_def)
  have e: "d' = d" if "set metadata_tables \<subseteq> set (schema d)"
  proof -
    have "filter (\<lambda>t. t \<notin> set (schema d)) metadata_tables = []"
      using that by (auto simp: filter_empty_conv)
    then show ?thesis by (simp add: d'_def)
  qed
  have f: "\<forall>t \<in> set metadata_tables. create_table t d' = Inl OperationalError"
    by (simp add: create_table_def s)
  show ?thesis
    using a b s c e f by (intro exI [of _ d']) (simp add: d'_def)
qed

text \<open>
  The theorem on the example store, which has the six tables, and on the same store without
  its catalogue, where \<^verbatim>\<open>create_all\<close> creates the six tables.
\<close>

theorem create_all_idempotent_witness:
  "distinct (schema example_db) \<and> set metadata_tables \<subseteq> set (schema example_db) \<and>
   create_all example_db = Inr example_db \<and>
   create_table ''vendas'' example_db = Inl OperationalError \<and>
   create_all (example_db\<lparr>schema := []\<rparr>) = Inr example_db"
proof -
  have d: "distinct (schema example_db)" "set metadata_tables \<subseteq> set (schema example_db)"
    by (simp_all add: example_db_def distinct_metadata_tables)
  have v: "''vendas'' \<in> set metadata_tables" by (simp add: metadata_tables_def)
  from create_all_idempotent [of example_db] d
  have a: "create_all example_db = Inr example_db"
    and "\<forall>t \<in> set metadata_tables. create_table t example_db = Inl OperationalError"
    by auto
  with v have b: "create_table ''vendas'' example_db = Inl OperationalError" by blast
  have c: "create_all (example_db\<lparr>schema := []\<rparr>) = Inr example_db"
    by (simp add: create_all_eq) (simp add: example_db_def)
  show ?thesis using d a b c by simp
qed

subsection \<open>The seeding loops\<close>
























end
